theory Spec2Isabelle
  imports Complex_Main
begin

section \<open>Python strings\<close>

text \<open>
  A Python \<open>str\<close> is modelled as a \<open>string\<close> holding its UTF-8 bytes. The case mappings
  below act on the ASCII letters only and leave every other byte alone; the pound and the
  euro sign are the byte sequences of their UTF-8 encodings. Floats are modelled as exact
  rationals.
\<close>

definition ascii_upper :: string where
  "ascii_upper = ''ABCDEFGHIJKLMNOPQRSTUVWXYZ''"

definition ascii_lower :: string where
  "ascii_lower = ''abcdefghijklmnopqrstuvwxyz''"

definition lower_char :: "char \<Rightarrow> char" where
  "lower_char c = (case map_of (zip ascii_upper ascii_lower) c of Some d \<Rightarrow> d | None \<Rightarrow> c)"

definition upper_char :: "char \<Rightarrow> char" where
  "upper_char c = (case map_of (zip ascii_lower ascii_upper) c of Some d \<Rightarrow> d | None \<Rightarrow> c)"

definition is_alpha :: "char \<Rightarrow> bool" where
  "is_alpha c = (c \<in> set ascii_upper \<or> c \<in> set ascii_lower)"

definition is_digit :: "char \<Rightarrow> bool" where
  "is_digit c = (c \<in> set ''0123456789'')"

text \<open>The ASCII characters for which \<open>str.isspace\<close> holds, which are those \<open>\s\<close> matches.\<close>

definition is_space :: "char \<Rightarrow> bool" where
  "is_space c = (c \<in> set [CHR 0x09, CHR 0x0A, CHR 0x0B, CHR 0x0C, CHR 0x0D,
                           CHR 0x1C, CHR 0x1D, CHR 0x1E, CHR 0x1F, CHR 0x20])"

text \<open>\<open>s.lower()\<close>\<close>

definition lower :: "string \<Rightarrow> string" where
  "lower s = map lower_char s"

text \<open>\<open>s.title()\<close>: a letter that follows a letter is lowered, any other letter is raised.\<close>

fun title_from :: "bool \<Rightarrow> string \<Rightarrow> string" where
  "title_from prev [] = []"
| "title_from prev (c # cs) =
     (if is_alpha c then (if prev then lower_char c else upper_char c) # title_from True cs
      else c # title_from False cs)"

definition title :: "string \<Rightarrow> string" where
  "title s = title_from False s"

text \<open>\<open>s.startswith(sub)\<close> and the substring test \<open>sub in s\<close>.\<close>

definition startswith :: "string \<Rightarrow> string \<Rightarrow> bool" where
  "startswith s sub = (take (length sub) s = sub)"

fun py_in :: "string \<Rightarrow> string \<Rightarrow> bool" where
  "py_in sub [] = (sub = [])"
| "py_in sub (c # cs) = (startswith (c # cs) sub \<or> py_in sub cs)"

text \<open>\<open>s.split(sep)\<close> for a separator of one character: never the empty list.\<close>

fun split_on :: "char \<Rightarrow> string \<Rightarrow> string list" where
  "split_on sep [] = [[]]"
| "split_on sep (c # cs) =
     (if c = sep then [] # split_on sep cs
      else (case split_on sep cs of w # ws \<Rightarrow> (c # w) # ws | [] \<Rightarrow> [[c]]))"

text \<open>\<open>s.replace(old, new)\<close> for single characters, and for deleting a character.\<close>

definition replace_char :: "char \<Rightarrow> char \<Rightarrow> string \<Rightarrow> string" where
  "replace_char old new s = map (\<lambda>c. if c = old then new else c) s"

definition remove_char :: "char \<Rightarrow> string \<Rightarrow> string" where
  "remove_char old s = filter (\<lambda>c. c \<noteq> old) s"

text \<open>
  \<open>float(s)\<close> on a run of digits with at most one decimal point, the only strings the
  amount patterns capture. Every other string counts as a \<open>ValueError\<close>, the value
  \<open>None\<close>.
\<close>

definition digit_val :: "char \<Rightarrow> nat" where
  "digit_val c = length (takeWhile (\<lambda>d. d \<noteq> c) ''0123456789'')"

definition digits_val :: "string \<Rightarrow> nat" where
  "digits_val s = foldl (\<lambda>n c. 10 * n + digit_val c) 0 s"

definition all_digits :: "string \<Rightarrow> bool" where
  "all_digits s = (filter (\<lambda>c. \<not> is_digit c) s = [])"

definition py_float :: "string \<Rightarrow> rat option" where
  "py_float s =
     (case split_on CHR ''.'' s of
        [w] \<Rightarrow> if w \<noteq> [] \<and> all_digits w then Some (of_nat (digits_val w)) else None
      | [w, f] \<Rightarrow>
          if (w \<noteq> [] \<or> f \<noteq> []) \<and> all_digits w \<and> all_digits f
          then Some (of_nat (digits_val (w @ f)) / 10 ^ length f) else None
      | _ \<Rightarrow> None)"

section \<open>Regular expressions\<close>

text \<open>
  The fragment of Python's \<open>re\<close> syntax that the patterns of the source use, always under
  \<open>re.IGNORECASE\<close>: literal text, a character class, a greedy repetition of a class
  (\<open>c*\<close>, \<open>c+\<close>, \<open>c{m,n}\<close>), sequence, alternation, a greedy optional part and the
  capturing group (no pattern has more than one).
\<close>

datatype cclass = Digit | Space | Alpha | OneOf string

fun in_class :: "cclass \<Rightarrow> char \<Rightarrow> bool" where
  "in_class Digit c = is_digit c"
| "in_class Space c = is_space c"
| "in_class Alpha c = is_alpha c"
| "in_class (OneOf cs) c = (c \<in> set cs)"

datatype rx =
    Lit string
  | Cls cclass
  | Rep cclass nat "nat option"
  | Seq rx rx
  | Alt rx rx
  | Opt rx
  | Grp rx

text \<open>
  \<open>run r s\<close> lists the ways in which \<open>r\<close> matches at the start of \<open>s\<close>, in the order in
  which a backtracking matcher tries them: each entry is the text captured by the group
  (if the group took part) and the rest of \<open>s\<close> after the match. The match that
  \<open>re\<close> reports is the first entry.
\<close>

fun run :: "rx \<Rightarrow> string \<Rightarrow> (string option \<times> string) list" where
  "run (Lit w) s =
     (if length w \<le> length s \<and> lower (take (length w) s) = lower w
      then [(None, drop (length w) s)] else [])"
| "run (Cls c) s =
     (case s of [] \<Rightarrow> [] | x # xs \<Rightarrow> if in_class c x then [(None, xs)] else [])"
| "run (Rep c lo hi) s =
     (let n = length (takeWhile (in_class c) s);
          m = (case hi of None \<Rightarrow> n | Some h \<Rightarrow> min n h)
      in map (\<lambda>k. (None, drop k s)) (rev [lo ..< Suc m]))"
| "run (Seq a b) s =
     concat (map (\<lambda>(g, t). map (\<lambda>(g', u). (case g' of None \<Rightarrow> g | Some x \<Rightarrow> Some x, u))
                               (run b t)) (run a s))"
| "run (Alt a b) s = run a s @ run b s"
| "run (Opt a) s = run a s @ [(None, s)]"
| "run (Grp a) s = map (\<lambda>(g, t). (Some (take (length s - length t) s), t)) (run a s)"

text \<open>A match object: \<open>group(0)\<close> and \<open>group(1)\<close>.\<close>

record rmatch =
  group0 :: string
  group1 :: "string option"

definition match_at :: "rx \<Rightarrow> string \<Rightarrow> (rmatch \<times> nat) option" where
  "match_at r s =
     (case run r s of
        [] \<Rightarrow> None
      | (g, t) # rest \<Rightarrow>
          Some (\<lparr>group0 = take (length s - length t) s, group1 = g\<rparr>, length s - length t))"

text \<open>\<open>re.search(r, s, re.IGNORECASE)\<close>: the match at the leftmost position that has one.\<close>

fun re_search :: "rx \<Rightarrow> string \<Rightarrow> rmatch option" where
  "re_search r [] = map_option fst (match_at r [])"
| "re_search r (c # cs) =
     (case match_at r (c # cs) of Some (m, n) \<Rightarrow> Some m | None \<Rightarrow> re_search r cs)"

text \<open>
  \<open>re.finditer(r, s, re.IGNORECASE)\<close>: the matches from left to right, none overlapping
  another. The first argument counts the characters still covered by the previous match.
  The patterns it is used with match no empty text.
\<close>

fun finditer_from :: "nat \<Rightarrow> rx \<Rightarrow> string \<Rightarrow> rmatch list" where
  "finditer_from k r [] = []"
| "finditer_from (Suc k) r (c # cs) = finditer_from k r cs"
| "finditer_from 0 r (c # cs) =
     (case match_at r (c # cs) of
        None \<Rightarrow> finditer_from 0 r cs
      | Some (m, n) \<Rightarrow> m # finditer_from (n - 1) r cs)"

definition finditer :: "rx \<Rightarrow> string \<Rightarrow> rmatch list" where
  "finditer r s = finditer_from 0 r s"

text \<open>Shorthands for writing the patterns down.\<close>

definition seqs :: "rx list \<Rightarrow> rx" where
  "seqs rs = foldr Seq (butlast rs) (last rs)"

definition alts :: "rx list \<Rightarrow> rx" where
  "alts rs = foldr Alt (butlast rs) (last rs)"

definition many :: "cclass \<Rightarrow> rx" where
  "many c = Rep c 0 None"

definition many1 :: "cclass \<Rightarrow> rx" where
  "many1 c = Rep c 1 None"

section \<open>Text extractors of the scanner\<close>

datatype error = AttributeError | IndexError | ValueError

definition pound :: string where
  "pound = [CHR 0xC2, CHR 0xA3]"

definition euro :: string where
  "euro = [CHR 0xE2, CHR 0x82, CHR 0xAC]"

text \<open>The class \<open>[$\<pounds>\<euro>]\<close>: one of three characters, two of them several bytes long.\<close>

definition currency_symbol :: rx where
  "currency_symbol = alts [Lit ''$'', Lit pound, Lit euro]"

text \<open>The group \<open>(\d+(?:[.,]\d+)?)\<close>.\<close>

definition amount_group :: rx where
  "amount_group = Grp (Seq (many1 Digit) (Opt (Seq (Cls (OneOf ''.,'')) (many1 Digit))))"

definition amount_patterns :: "rx list" where
  "amount_patterns =
     [seqs [currency_symbol, many Space, amount_group],
      seqs [amount_group, many Space, currency_symbol],
      seqs [amount_group, many Space,
            alts [Lit ''USD'', Lit ''GBP'', Lit ''EUR'', Lit ''dollars'', Lit ''pounds'',
                  Lit ''euros'']]]"

text \<open>
  The currency of a match, from the matched text: the symbols and the codes are looked for
  as they are written, the words in the lowered text.
\<close>

definition currency_of :: "string \<Rightarrow> string" where
  "currency_of g0 =
     (if py_in ''$'' g0 \<or> py_in ''USD'' g0 \<or> py_in ''dollars'' (lower g0) then ''USD''
      else if py_in pound g0 \<or> py_in ''GBP'' g0 \<or> py_in ''pounds'' (lower g0) then ''GBP''
      else if py_in euro g0 \<or> py_in ''EUR'' g0 \<or> py_in ''euros'' (lower g0) then ''EUR''
      else ''USD'')"

text \<open>
  The body of the inner loop of \<open>GmailScanner.extract_currency_amounts\<close>: one match gives
  one pair, or nothing when \<open>float\<close> raises \<open>ValueError\<close>. A match whose group took no
  part would raise \<open>AttributeError\<close> at \<open>.replace\<close>.
\<close>

definition amount_of_match :: "rmatch \<Rightarrow> error + (rat \<times> string) list" where
  "amount_of_match m =
     (case group1 m of
        None \<Rightarrow> Inl AttributeError
      | Some g \<Rightarrow>
          (case py_float (replace_char CHR '','' CHR ''.'' g) of
             None \<Rightarrow> Inr []
           | Some amount \<Rightarrow> Inr [(amount, currency_of (group0 m))]))"

fun collect :: "('a \<Rightarrow> error + 'b list) \<Rightarrow> 'a list \<Rightarrow> error + 'b list" where
  "collect f [] = Inr []"
| "collect f (x # xs) =
     (case f x of
        Inl e \<Rightarrow> Inl e
      | Inr ys \<Rightarrow> (case collect f xs of Inl e \<Rightarrow> Inl e | Inr zs \<Rightarrow> Inr (ys @ zs)))"

definition extract_currency_amounts :: "string \<Rightarrow> error + (rat \<times> string) list" where
  "extract_currency_amounts text =
     collect (\<lambda>pattern. collect amount_of_match (finditer pattern text)) amount_patterns"

text \<open>\<open>GmailScanner.extract_billing_frequency\<close> and its four lists of patterns.\<close>

definition opt_subscription :: "string \<Rightarrow> rx" where
  "opt_subscription w = Seq (Lit w) (Opt (Seq (many1 Space) (Lit ''subscription'')))"

definition monthly_patterns :: "rx list" where
  "monthly_patterns =
     [opt_subscription ''monthly'', Lit ''per month'', Lit ''each month'', Lit ''every month'',
      Lit ''/month'', Lit ''month-to-month'']"

definition annual_patterns :: "rx list" where
  "annual_patterns =
     [opt_subscription ''annual'', opt_subscription ''yearly'', Lit ''per year'',
      Lit ''each year'', Lit ''every year'', Lit ''/year'', Lit ''12-month'']"

definition quarterly_patterns :: "rx list" where
  "quarterly_patterns =
     [opt_subscription ''quarterly'', Lit ''per quarter'', Lit ''every quarter'',
      Lit ''3-month'', Lit ''three-month'']"

definition weekly_patterns :: "rx list" where
  "weekly_patterns =
     [opt_subscription ''weekly'', Lit ''per week'', Lit ''each week'', Lit ''every week'',
      Lit ''/week'']"

definition any_search :: "rx list \<Rightarrow> string \<Rightarrow> bool" where
  "any_search ps text = (find (\<lambda>p. re_search p text \<noteq> None) ps \<noteq> None)"

definition extract_billing_frequency :: "string \<Rightarrow> string option" where
  "extract_billing_frequency text =
     (if any_search monthly_patterns text then Some ''Monthly''
      else if any_search annual_patterns text then Some ''Annual''
      else if any_search quarterly_patterns text then Some ''Quarterly''
      else if any_search weekly_patterns text then Some ''Weekly''
      else None)"

section \<open>Service identity\<close>

text \<open>
  An email as \<open>GmailScanner.extract_email_content\<close> builds it: a dictionary whose keys
  \<open>id\<close>, \<open>from\<close>, \<open>subject\<close>, \<open>body_text\<close> and \<open>timestamp\<close> are always set. The key
  \<open>service_name\<close> is absent until \<open>GmailSubAgent.scan_gmail\<close> stores it. Timestamps and
  datetimes are whole seconds since the epoch.
\<close>

record email =
  e_id :: string
  e_from :: string
  e_subject :: string
  e_body_text :: string
  e_timestamp :: int
  e_service_name :: "string option"

definition service_providers :: "string list" where
  "service_providers =
     [''netflix.com'', ''spotify.com'', ''adobe.com'', ''dropbox.com'',
      ''amazon.com'', ''apple.com'', ''microsoft.com'', ''google.com'',
      ''hulu.com'', ''disney.com'', ''hbo.com'', ''github.com'',
      ''notion.so'', ''canva.com'', ''grammarly.com'', ''zoom.us'']"

definition webmail :: "string list" where
  "webmail = [''gmail'', ''yahoo'', ''hotmail'', ''outlook'', ''mail'']"

text \<open>
  \<open>GmailScanner.extract_service_name\<close>. The three steps of the source in turn: the company
  part of the sender's domain, a known provider named in the subject, the first word of
  the From field; \<open>Unknown Service\<close> is returned for an empty From field only.
\<close>

definition company_of_from :: "string \<Rightarrow> string option" where
  "company_of_from from_field =
     (if CHR ''@'' \<in> set from_field then
        let domain = hd (split_on CHR ''>'' (last (split_on CHR ''@'' from_field)));
            company = hd (split_on CHR ''.'' domain)
        in if company \<notin> set webmail then Some (title company) else None
      else None)"

definition provider_in_subject :: "string \<Rightarrow> string option" where
  "provider_in_subject subject =
     map_option (\<lambda>provider. title (hd (split_on CHR ''.'' provider)))
       (find (\<lambda>provider. py_in (hd (split_on CHR ''.'' provider)) (lower subject))
          service_providers)"

definition extract_service_name :: "email \<Rightarrow> string" where
  "extract_service_name email_data =
     (let from_field = e_from email_data in
      case company_of_from from_field of
        Some name \<Rightarrow> name
      | None \<Rightarrow>
          (case provider_in_subject (e_subject email_data) of
             Some name \<Rightarrow> name
           | None \<Rightarrow>
               if from_field \<noteq> [] then
                 title (remove_char CHR ''<''
                   (remove_char CHR 0x22 (hd (split_on CHR '' '' from_field))))
               else ''Unknown Service''))"

section \<open>Service classifier\<close>

definition service_categories :: "(string \<times> string list) list" where
  "service_categories =
     [(''streaming'',
        [''netflix'', ''hulu'', ''disney'', ''spotify'', ''apple music'', ''youtube'',
         ''hbo'', ''prime video'', ''paramount'', ''peacock'', ''crunchyroll'',
         ''dazn'', ''fubo'', ''sling'', ''tidal'']),
      (''productivity'',
        [''microsoft'', ''office'', ''google'', ''workspace'', ''dropbox'', ''box'',
         ''evernote'', ''notion'', ''airtable'', ''asana'', ''trello'', ''slack'',
         ''zoom'', ''adobe'', ''canva'', ''grammarly'']),
      (''gaming'',
        [''xbox'', ''playstation'', ''nintendo'', ''steam'', ''epic games'', ''ea play'',
         ''ubisoft'', ''game pass'', ''ps plus'', ''nintendo online'']),
      (''fitness'',
        [''peloton'', ''fitbit'', ''strava'', ''myfitnesspal'', ''beachbody'', ''classpass'',
         ''fitness'', ''gym'', ''workout'']),
      (''news'',
        [''nyt'', ''new york times'', ''wsj'', ''wall street journal'', ''washington post'',
         ''economist'', ''financial times'', ''bloomberg'', ''medium'', ''substack'']),
      (''shopping'',
        [''amazon'', ''walmart'', ''instacart'', ''doordash'', ''uber eats'', ''grubhub'',
         ''hello fresh'', ''blue apron'', ''prime'', ''costco'']),
      (''security'',
        [''norton'', ''mcafee'', ''avast'', ''avg'', ''kaspersky'', ''bitdefender'',
         ''vpn'', ''password'', ''lastpass'', ''1password'', ''dashlane'']),
      (''cloud'',
        [''aws'', ''amazon web'', ''azure'', ''google cloud'', ''digitalocean'', ''linode'',
         ''vultr'', ''heroku'', ''netlify'', ''vercel''])]"

text \<open>One pass of the nested loop: the first category, in order, one of whose keywords occurs.\<close>

definition category_in :: "string \<Rightarrow> string option" where
  "category_in text =
     map_option (\<lambda>(category, services). title category)
       (find (\<lambda>(category, services). find (\<lambda>service. py_in service text) services \<noteq> None)
          service_categories)"

definition categorize_subscription :: "string \<Rightarrow> string \<Rightarrow> string" where
  "categorize_subscription service_name email_content =
     (case category_in (lower service_name) of
        Some category \<Rightarrow> category
      | None \<Rightarrow>
          (case category_in (lower email_content) of
             Some category \<Rightarrow> category
           | None \<Rightarrow> ''Other''))"

section \<open>Cost normalizer\<close>

text \<open>
  \<open>SubscriptionAnalyzer.calculate_monthly_cost\<close>: an empty frequency returns the amount;
  otherwise the lowered frequency is tested for the substrings in the order of the source.
\<close>

definition calculate_monthly_cost :: "rat \<Rightarrow> string \<Rightarrow> rat" where
  "calculate_monthly_cost amount frequency =
     (if frequency = [] then amount
      else let frequency = lower frequency in
        if py_in ''annual'' frequency \<or> py_in ''yearly'' frequency then amount / 12
        else if py_in ''quarterly'' frequency then amount / 3
        else if py_in ''weekly'' frequency then amount * 4.33
        else if py_in ''daily'' frequency then amount * 30.42
        else amount)"

section \<open>Dates\<close>

text \<open>
  A \<open>datetime\<close> is its number of seconds since the epoch, a \<open>timedelta\<close> a number of
  seconds; \<open>.days\<close> of a \<open>timedelta\<close> is the number of whole days in it, rounded down.
  The clock (\<open>datetime.now()\<close>) is the parameter \<open>now\<close> of each function that reads it.
\<close>

definition days :: "int \<Rightarrow> int" where
  "days delta = delta div 86400"

text \<open>
  \<open>datetime.fromtimestamp\<close> raises \<open>ValueError\<close> when the instant, or the instant a
  day before it, which the function looks at as well, lies outside the years 1 to 9999
  that a \<open>datetime\<close> can hold. The local time is taken to be UTC.
\<close>

definition datetime_min :: int where
  "datetime_min = - 62135510400"

definition datetime_max :: int where
  "datetime_max = 253402300799"

definition datetime_fromtimestamp :: "int \<Rightarrow> error + int" where
  "datetime_fromtimestamp t =
     (if datetime_min \<le> t \<and> t \<le> datetime_max then Inr t else Inl ValueError)"

text \<open>\<open>SubscriptionAnalyzer.is_subscription_active\<close>; the builder calls it with the default 60.\<close>

definition is_subscription_active :: "int \<Rightarrow> int \<Rightarrow> int \<Rightarrow> bool" where
  "is_subscription_active now last_email_date threshold_days =
     (days (now - last_email_date) \<le> threshold_days)"

section \<open>Free trials\<close>

definition trial_patterns :: "rx list" where
  "trial_patterns =
     [Lit ''free trial'', Lit ''trial period'', Lit ''trial ends'', Lit ''trial will end'',
      Lit ''trial expir'']"

text \<open>The group \<open>([A-Za-z]+\s+\d{1,2}(?:st|nd|rd|th)?,?\s+\d{4})\<close>.\<close>

definition long_date :: rx where
  "long_date =
     Grp (seqs [many1 Alpha, many1 Space, Rep Digit 1 (Some 2),
                Opt (alts [Lit ''st'', Lit ''nd'', Lit ''rd'', Lit ''th'']),
                Opt (Lit '',''), many1 Space, Rep Digit 4 (Some 4)])"

text \<open>The group \<open>(\d{1,2}[/-]\d{1,2}[/-]\d{2,4})\<close>.\<close>

definition short_date :: rx where
  "short_date =
     Grp (seqs [Rep Digit 1 (Some 2), Cls (OneOf ''/-''), Rep Digit 1 (Some 2),
                Cls (OneOf ''/-''), Rep Digit 2 (Some 4)])"

text \<open>The common start \<open>trial\s+(?:will\s+)?end(?:s|ing)?\s+\<close> of the first two patterns.\<close>

definition trial_end_prefix :: rx where
  "trial_end_prefix =
     seqs [Lit ''trial'', many1 Space, Opt (Seq (Lit ''will'') (many1 Space)), Lit ''end'',
           Opt (Alt (Lit ''s'') (Lit ''ing'')), many1 Space]"

definition date_patterns :: "rx list" where
  "date_patterns =
     [seqs [trial_end_prefix, Lit ''on'', many1 Space, long_date],
      seqs [trial_end_prefix, Opt (Seq (Lit ''on'') (many1 Space)), short_date],
      seqs [Lit ''until'', many1 Space, long_date],
      seqs [Lit ''expires'', many1 Space, Opt (Seq (Lit ''on'') (many1 Space)), long_date]]"

definition date_formats :: "string list" where
  "date_formats =
     [''%B %d, %Y'', ''%B %d %Y'', ''%m/%d/%Y'', ''%m-%d-%Y'', ''%d/%m/%Y'', ''%d-%m-%Y'']"

text \<open>
  \<open>datetime.strptime\<close> belongs to the Python library and is a parameter here:
  \<open>strptime date_str fmt\<close> is \<open>None\<close> when the call raises. The inner loop returns the
  date of the first format that parses.
\<close>

definition parse_date :: "(string \<Rightarrow> string \<Rightarrow> int option) \<Rightarrow> string \<Rightarrow> int option" where
  "parse_date strptime date_str =
     (case List.map_filter (strptime date_str) date_formats of
        [] \<Rightarrow> None
      | d # ds \<Rightarrow> Some d)"

text \<open>One round of the loop over the date patterns.\<close>

definition date_by_pattern ::
  "(string \<Rightarrow> string \<Rightarrow> int option) \<Rightarrow> string \<Rightarrow> rx \<Rightarrow> int option" where
  "date_by_pattern strptime email_content pattern =
     (case re_search pattern email_content of
        None \<Rightarrow> None
      | Some m \<Rightarrow> (case group1 m of None \<Rightarrow> None | Some date_str \<Rightarrow> parse_date strptime date_str))"

text \<open>\<open>SubscriptionAnalyzer.detect_free_trial\<close>\<close>

definition detect_free_trial ::
  "(string \<Rightarrow> string \<Rightarrow> int option) \<Rightarrow> string \<Rightarrow> bool \<times> int option" where
  "detect_free_trial strptime email_content =
     (if \<not> any_search trial_patterns email_content then (False, None)
      else
        (case List.map_filter (date_by_pattern strptime email_content) date_patterns of
           [] \<Rightarrow> (True, None)
         | d # ds \<Rightarrow> (True, Some d)))"

section \<open>Subscription builder\<close>

record subscription =
  service_name :: string
  category :: string
  amount :: "rat option"
  currency :: string
  billing_frequency :: string
  monthly_cost :: "rat option"
  last_email_date :: int
  is_active :: bool
  is_free_trial :: bool
  trial_end_date :: "int option"
  email_count :: nat
  latest_email_id :: string

text \<open>
  The key under which \<open>analyze_subscription_emails\<close> files an email: its \<open>service_name\<close>
  or, when that key is absent, the titled first label of the sender's domain.
\<close>

definition service_key :: "email \<Rightarrow> string" where
  "service_key email =
     (let from_domain =
            (if CHR ''@'' \<in> set (e_from email)
             then hd (split_on CHR ''>'' (last (split_on CHR ''@'' (e_from email))))
             else [])
      in case e_service_name email of
           Some name \<Rightarrow> name
         | None \<Rightarrow> title (hd (split_on CHR ''.'' from_domain)))"

text \<open>
  The dictionary \<open>service_emails\<close>, as the list of its items in the order of insertion.
\<close>

fun append_email :: "string \<Rightarrow> email \<Rightarrow> (string \<times> email list) list \<Rightarrow> (string \<times> email list) list" where
  "append_email name email [] = [(name, [email])]"
| "append_email name email ((k, es) # rest) =
     (if k = name then (k, es @ [email]) # rest else (k, es) # append_email name email rest)"

definition group_by_service :: "email list \<Rightarrow> (string \<times> email list) list" where
  "group_by_service emails =
     foldl (\<lambda>service_emails email. append_email (service_key email) email service_emails)
       [] emails"

text \<open>
  \<open>service_email_list.sort(key=..., reverse=True)\<close>: the stable sort of Python, which for
  \<open>reverse=True\<close> reverses the list, sorts it and reverses it again, so that emails of
  equal timestamp keep their order.
\<close>

definition sort_newest_first :: "email list \<Rightarrow> email list" where
  "sort_newest_first service_email_list = rev (sort_key e_timestamp (rev service_email_list))"

text \<open>\<open>service_email_list[0]\<close> after the sort.\<close>

definition latest_email_of :: "email list \<Rightarrow> error + email" where
  "latest_email_of service_email_list =
     (case sort_newest_first service_email_list of
        [] \<Rightarrow> Inl IndexError
      | latest_email # older \<Rightarrow> Inr latest_email)"

text \<open>
  \<open>hasattr(latest_email, name)\<close>: the email is a plain dictionary, whose attributes are
  those of \<open>dict\<close>.
\<close>

definition dict_attributes :: "string list" where
  "dict_attributes =
     [''__class__'', ''__class_getitem__'', ''__contains__'', ''__delattr__'', ''__delitem__'',
      ''__dir__'', ''__doc__'', ''__eq__'', ''__format__'', ''__ge__'', ''__getattribute__'',
      ''__getitem__'', ''__getstate__'', ''__gt__'', ''__hash__'', ''__init__'',
      ''__init_subclass__'', ''__ior__'', ''__iter__'', ''__le__'', ''__len__'', ''__lt__'',
      ''__ne__'', ''__new__'', ''__or__'', ''__reduce__'', ''__reduce_ex__'', ''__repr__'',
      ''__reversed__'', ''__ror__'', ''__setattr__'', ''__setitem__'', ''__sizeof__'',
      ''__str__'', ''__subclasshook__'', ''clear'', ''copy'', ''fromkeys'', ''get'', ''items'',
      ''keys'', ''pop'', ''popitem'', ''setdefault'', ''update'', ''values'']"

definition hasattr :: "string \<Rightarrow> bool" where
  "hasattr name = (name \<in> set dict_attributes)"

text \<open>
  The choice of the amount: the dictionary \<open>amount_counts\<close> in the order of insertion,
  \<open>max\<close> over its items by count (the first of the largest), and the currency of the first
  pair with that amount.
\<close>

fun count_amount :: "rat \<Rightarrow> (rat \<times> nat) list \<Rightarrow> (rat \<times> nat) list" where
  "count_amount a [] = [(a, 1)]"
| "count_amount a ((b, n) # rest) =
     (if b = a then (b, n + 1) # rest else (b, n) # count_amount a rest)"

definition amount_counts :: "(rat \<times> string) list \<Rightarrow> (rat \<times> nat) list" where
  "amount_counts amounts = foldl (\<lambda>counts (a, cur). count_amount a counts) [] amounts"

fun max_by_count :: "(rat \<times> nat) \<Rightarrow> (rat \<times> nat) list \<Rightarrow> (rat \<times> nat)" where
  "max_by_count best [] = best"
| "max_by_count best (x # xs) = max_by_count (if snd best < snd x then x else best) xs"

definition select_amount :: "(rat \<times> string) list \<Rightarrow> rat option \<times> string" where
  "select_amount amounts =
     (case amount_counts amounts of
        [] \<Rightarrow> (None, ''USD'')
      | first # others \<Rightarrow>
          let most_common_amount = fst (max_by_count first others)
          in (Some most_common_amount,
              case find (\<lambda>(a, cur). a = most_common_amount) amounts of
                Some (a, cur) \<Rightarrow> cur
              | None \<Rightarrow> ''USD''))"

text \<open>The frequency inferred from keywords when no extractor gave one.\<close>

definition infer_frequency :: "string \<Rightarrow> string" where
  "infer_frequency email_body =
     (if re_search (alts [Lit ''monthly'', Lit ''per month'', Lit ''/month'']) email_body \<noteq> None
      then ''Monthly''
      else if re_search (alts [Lit ''annual'', Lit ''yearly'', Lit ''per year'', Lit ''/year''])
                email_body \<noteq> None
      then ''Annual''
      else if re_search (alts [Lit ''quarterly'', Lit ''per quarter'', Lit ''every 3 months''])
                email_body \<noteq> None
      then ''Quarterly''
      else ''Unknown'')"

text \<open>
  The body of the loop over the services in \<open>analyze_subscription_emails\<close>: the record of
  one service, or the exception that ends the whole call.
\<close>

definition process_service ::
  "(string \<Rightarrow> string \<Rightarrow> int option) \<Rightarrow> int \<Rightarrow> string \<times> email list \<Rightarrow> error + subscription list" where
  "process_service strptime now item =
     (case item of (name, service_email_list) \<Rightarrow>
      case latest_email_of service_email_list of
        Inl e \<Rightarrow> Inl e
      | Inr latest_email \<Rightarrow>
      case datetime_fromtimestamp (e_timestamp latest_email) of
        Inl e \<Rightarrow> Inl e
      | Inr email_date \<Rightarrow>
      let email_body = e_body_text latest_email in
      case (if hasattr ''extract_currency_amounts'' then extract_currency_amounts email_body
            else Inr []) of
        Inl e \<Rightarrow> Inl e
      | Inr amounts \<Rightarrow>
      let (subscription_amount, cur) = select_amount amounts;
          extracted = (if hasattr ''extract_billing_frequency''
                       then extract_billing_frequency email_body else None);
          frequency = (case extracted of
                         None \<Rightarrow> infer_frequency email_body
                       | Some f \<Rightarrow> if f = [] then infer_frequency email_body else f);
          (trial, trial_end) = detect_free_trial strptime email_body
      in Inr [\<lparr>service_name = name,
               category = categorize_subscription name email_body,
               amount = subscription_amount,
               currency = cur,
               billing_frequency = frequency,
               monthly_cost = map_option (\<lambda>a. calculate_monthly_cost a frequency)
                                subscription_amount,
               last_email_date = email_date,
               is_active = is_subscription_active now email_date 60,
               is_free_trial = trial,
               trial_end_date = trial_end,
               email_count = length service_email_list,
               latest_email_id = e_id latest_email\<rparr>])"

text \<open>\<open>SubscriptionAnalyzer.analyze_subscription_emails\<close>\<close>

definition analyze_subscription_emails ::
  "(string \<Rightarrow> string \<Rightarrow> int option) \<Rightarrow> int \<Rightarrow> email list \<Rightarrow> error + subscription list" where
  "analyze_subscription_emails strptime now emails =
     collect (process_service strptime now) (group_by_service emails)"

text \<open>
  The records of a list of messages: \<open>GmailSubAgent.scan_gmail\<close> from the retrieved emails
  on. It stores the name that \<open>extract_service_name\<close> finds in each email and hands the
  emails to the analyzer. (The reply of the language model is stored under a key that
  nothing reads.)
\<close>

definition buildSubscriptionRecords ::
  "(string \<Rightarrow> string \<Rightarrow> int option) \<Rightarrow> int \<Rightarrow> email list \<Rightarrow> error + subscription list" where
  "buildSubscriptionRecords strptime now emails =
     analyze_subscription_emails strptime now
       (map (\<lambda>email. email\<lparr>e_service_name := Some (extract_service_name email)\<rparr>) emails)"

section \<open>Summary aggregator\<close>

text \<open>
  The dictionary \<open>categories\<close>, as the list of its items: a category with its count and
  its summed monthly cost.
\<close>

fun add_category :: "string \<Rightarrow> rat \<Rightarrow> (string \<times> nat \<times> rat) list \<Rightarrow> (string \<times> nat \<times> rat) list" where
  "add_category c m [] = [(c, 1, m)]"
| "add_category c m ((k, n, t) # rest) =
     (if k = c then (k, n + 1, t + m) # rest else (k, n, t) # add_category c m rest)"

definition cost_or_zero :: "subscription \<Rightarrow> rat" where
  "cost_or_zero s = (case monthly_cost s of None \<Rightarrow> 0 | Some m \<Rightarrow> m)"

record summary =
  total_subscriptions :: nat
  active_subscriptions :: nat
  total_monthly_cost :: rat
  annual_projection :: rat
  categories :: "(string \<times> nat \<times> rat) list"
  trials_ending_soon :: "subscription list"
  unused_subscriptions :: "subscription list"

definition ends_soon :: "int \<Rightarrow> subscription \<Rightarrow> bool" where
  "ends_soon current_date s =
     (is_free_trial s \<and>
      (case trial_end_date s of
         None \<Rightarrow> False
       | Some d \<Rightarrow> current_date < d \<and> days (d - current_date) \<le> 14))"

text \<open>\<open>SubscriptionAnalyzer.generate_summary_report\<close>\<close>

definition generate_summary_report :: "int \<Rightarrow> subscription list \<Rightarrow> summary" where
  "generate_summary_report current_date subscriptions =
     (let active = filter is_active subscriptions;
          total = sum_list (map cost_or_zero (filter (\<lambda>s. monthly_cost s \<noteq> None) active));
          unused_threshold = 60
      in \<lparr>total_subscriptions = length subscriptions,
          active_subscriptions = length active,
          total_monthly_cost = total,
          annual_projection = total * 12,
          categories = foldl (\<lambda>cats sub. add_category (category sub) (cost_or_zero sub) cats)
                         [] active,
          trials_ending_soon = filter (ends_soon current_date) subscriptions,
          unused_subscriptions =
            filter (\<lambda>s. unused_threshold < days (current_date - last_email_date s)) active\<rparr>)"

section \<open>Example inputs\<close>

definition billed_email :: email where
  "billed_email =
     \<lparr>e_id = ''m1'', e_from = ''Netflix <info@netflix.com>'', e_subject = ''Your receipt'',
      e_body_text = ''Your bill: $12.50 due'', e_timestamp = 1700000000,
      e_service_name = None\<rparr>"

text \<open>An email whose sender has an empty display name and a webmail address.\<close>

definition unnamed_email :: email where
  "unnamed_email =
     \<lparr>e_id = ''m2'', e_from = [CHR 0x22, CHR 0x22] @ '' <news@gmail.com>'',
      e_subject = ''Your receipt'', e_body_text = ''Thank you for your payment'',
      e_timestamp = 1700000000, e_service_name = None\<rparr>"

definition email_at :: "string \<Rightarrow> int \<Rightarrow> email" where
  "email_at i t =
     \<lparr>e_id = i, e_from = ''Hulu <billing@hulu.com>'', e_subject = ''Invoice'',
      e_body_text = ''Thanks'', e_timestamp = t, e_service_name = Some ''Hulu''\<rparr>"

text \<open>A record with a given activity flag, date of the last email and end of trial.\<close>

definition sub_with :: "bool \<Rightarrow> int \<Rightarrow> int option \<Rightarrow> subscription" where
  "sub_with active last_date end_date =
     \<lparr>service_name = ''Hulu'', category = ''Streaming'', amount = None, currency = ''USD'',
      billing_frequency = ''Unknown'', monthly_cost = None, last_email_date = last_date,
      is_active = active, is_free_trial = (end_date \<noteq> None), trial_end_date = end_date,
      email_count = 1, latest_email_id = ''m3''\<rparr>"

section \<open>Properties\<close>

subsection \<open>Substrings and searches\<close>

lemma py_in_split: "py_in sub s \<Longrightarrow> \<exists>pre rest. s = pre @ sub @ rest"
proof (induction s)
  case Nil
  then show ?case by simp
next
  case (Cons c cs)
  show ?case
  proof (cases "startswith (c # cs) sub")
    case True
    then have "c # cs = [] @ sub @ drop (length sub) (c # cs)"
      unfolding startswith_def by (metis append_Nil append_take_drop_id)
    then show ?thesis by blast
  next
    case False
    with Cons.prems have "py_in sub cs" by simp
    then obtain pre rest where "cs = pre @ sub @ rest"
      using Cons.IH by blast
    then have "c # cs = (c # pre) @ sub @ rest" by simp
    then show ?thesis by blast
  qed
qed

lemma run_Lit_prefix: "run (Lit w) (w @ rest) = [(None, rest)]"
  by simp

lemma match_at_opt_subscription: "match_at (opt_subscription w) (w @ rest) \<noteq> None"
proof -
  have "run (opt_subscription w) (w @ rest) \<noteq> []"
    unfolding opt_subscription_def by (simp del: run.simps(1) add: run_Lit_prefix)
  then show ?thesis
    by (auto simp: match_at_def split: list.splits)
qed

lemma re_search_append: "match_at r s \<noteq> None \<Longrightarrow> re_search r (pre @ s) \<noteq> None"
proof (induction pre)
  case Nil
  then show ?case by (cases s) (auto split: option.splits)
next
  case (Cons c pre)
  then show ?case by (auto split: option.splits)
qed

lemma re_search_opt_subscription:
  assumes "py_in w text"
  shows "re_search (opt_subscription w) text \<noteq> None"
proof -
  from assms obtain pre rest where "text = pre @ w @ rest"
    using py_in_split by blast
  then show ?thesis
    using re_search_append [OF match_at_opt_subscription] by simp
qed

subsection \<open>The extractors of the scanner\<close>

lemma any_search_iff: "any_search ps text = (\<exists>p\<in>set ps. re_search p text \<noteq> None)"
  by (auto simp: any_search_def find_None_iff)

text \<open>
  C3. A text that contains both "annual" and "monthly" has the billing frequency
  \<open>Monthly\<close>, because the four lists of patterns are searched for in the order monthly,
  annual, quarterly, weekly and the first list with a match decides: the frequency is
  that of the first list, in this order, one of whose patterns is found in the text, and
  none if no pattern of any list is found. So a text with "annual" and no monthly
  pattern is \<open>Annual\<close>, a text with "quarterly" and no monthly or annual pattern is
  \<open>Quarterly\<close>, and a text with "weekly" and no pattern of the three lists before is
  \<open>Weekly\<close>.
\<close>

theorem extract_billing_frequency_monthly_first:
  "(py_in ''annual'' text \<longrightarrow> py_in ''monthly'' text \<longrightarrow>
      extract_billing_frequency text = Some ''Monthly'')
   \<and> extract_billing_frequency text =
       (if \<exists>p\<in>set monthly_patterns. re_search p text \<noteq> None then Some ''Monthly''
        else if \<exists>p\<in>set annual_patterns. re_search p text \<noteq> None then Some ''Annual''
        else if \<exists>p\<in>set quarterly_patterns. re_search p text \<noteq> None then Some ''Quarterly''
        else if \<exists>p\<in>set weekly_patterns. re_search p text \<noteq> None then Some ''Weekly''
        else None)
   \<and> (py_in ''annual'' text \<longrightarrow> \<not> any_search monthly_patterns text \<longrightarrow>
        extract_billing_frequency text = Some ''Annual'')
   \<and> (py_in ''quarterly'' text \<longrightarrow> \<not> any_search monthly_patterns text \<longrightarrow>
        \<not> any_search annual_patterns text \<longrightarrow>
        extract_billing_frequency text = Some ''Quarterly'')
   \<and> (py_in ''weekly'' text \<longrightarrow> \<not> any_search monthly_patterns text \<longrightarrow>
        \<not> any_search annual_patterns text \<longrightarrow> \<not> any_search quarterly_patterns text \<longrightarrow>
        extract_billing_frequency text = Some ''Weekly'')
   \<and> extract_billing_frequency ''annual fee, weekly digest'' = Some ''Annual''
   \<and> extract_billing_frequency ''no billing words'' = None"
proof -
  have monthly: "any_search monthly_patterns text" if "py_in ''monthly'' text"
    using re_search_opt_subscription [OF that]
    by (simp add: any_search_def monthly_patterns_def)
  have annual: "any_search annual_patterns text" if "py_in ''annual'' text"
    using re_search_opt_subscription [OF that]
    by (simp add: any_search_def annual_patterns_def)
  have quarterly: "any_search quarterly_patterns text" if "py_in ''quarterly'' text"
    using re_search_opt_subscription [OF that]
    by (simp add: any_search_def quarterly_patterns_def)
  have weekly: "any_search weekly_patterns text" if "py_in ''weekly'' text"
    using re_search_opt_subscription [OF that]
    by (simp add: any_search_def weekly_patterns_def)
  have chain: "extract_billing_frequency text =
       (if \<exists>p\<in>set monthly_patterns. re_search p text \<noteq> None then Some ''Monthly''
        else if \<exists>p\<in>set annual_patterns. re_search p text \<noteq> None then Some ''Annual''
        else if \<exists>p\<in>set quarterly_patterns. re_search p text \<noteq> None then Some ''Quarterly''
        else if \<exists>p\<in>set weekly_patterns. re_search p text \<noteq> None then Some ''Weekly''
        else None)"
    unfolding extract_billing_frequency_def any_search_iff by (rule refl)
  have ex1: "extract_billing_frequency ''annual fee, weekly digest'' = Some ''Annual''"
    by code_simp
  have ex2: "extract_billing_frequency ''no billing words'' = None"
    by code_simp
  from monthly annual quarterly weekly chain ex1 ex2 show ?thesis
    by (simp add: extract_billing_frequency_def)
qed

theorem extract_billing_frequency_monthly_first_witness:
  "py_in ''annual'' ''annual plan, billed monthly''
   \<and> py_in ''monthly'' ''annual plan, billed monthly''
   \<and> extract_billing_frequency ''annual plan, billed monthly'' = Some ''Monthly''
   \<and> py_in ''annual'' ''annual fee, weekly digest''
   \<and> \<not> any_search monthly_patterns ''annual fee, weekly digest''
   \<and> extract_billing_frequency ''annual fee, weekly digest'' = Some ''Annual''
   \<and> py_in ''weekly'' ''your weekly digest''
   \<and> \<not> any_search monthly_patterns ''your weekly digest''
   \<and> \<not> any_search annual_patterns ''your weekly digest''
   \<and> \<not> any_search quarterly_patterns ''your weekly digest''
   \<and> extract_billing_frequency ''your weekly digest'' = Some ''Weekly''"
proof -
  have a1: "py_in ''annual'' ''annual plan, billed monthly''"
    by (simp add: startswith_def)
  have m1: "py_in ''monthly'' ''annual plan, billed monthly''"
    by (simp add: startswith_def)
  have a2: "py_in ''annual'' ''annual fee, weekly digest''"
    by (simp add: startswith_def)
  have n2: "\<not> any_search monthly_patterns ''annual fee, weekly digest''"
    by code_simp
  have w3: "py_in ''weekly'' ''your weekly digest''"
    by (simp add: startswith_def)
  have n3: "\<not> any_search monthly_patterns ''your weekly digest''"
    "\<not> any_search annual_patterns ''your weekly digest''"
    "\<not> any_search quarterly_patterns ''your weekly digest''"
    by code_simp+
  from extract_billing_frequency_monthly_first [of "''annual plan, billed monthly''"] a1 m1
  have r1: "extract_billing_frequency ''annual plan, billed monthly'' = Some ''Monthly''"
    by blast
  from extract_billing_frequency_monthly_first [of "''annual fee, weekly digest''"] a2 n2
  have r2: "extract_billing_frequency ''annual fee, weekly digest'' = Some ''Annual''"
    by blast
  from extract_billing_frequency_monthly_first [of "''your weekly digest''"] w3 n3
  have r3: "extract_billing_frequency ''your weekly digest'' = Some ''Weekly''"
    by blast
  from a1 m1 r1 a2 n2 r2 w3 n3 r3 show ?thesis
    by blast
qed

text \<open>The example of the specification: the amount after a dollar sign is found, in USD.\<close>

lemma extract_currency_amounts_bill:
  "extract_currency_amounts ''Your bill: $12.50 due'' = Inr [(12.5, ''USD'')]"
  by code_simp

text \<open>
  The patterns are matched without regard to case, and so is the alternative \<open>EUR\<close>, which
  comes before \<open>euros\<close> and takes the first three letters of that word; the test for the
  code in the matched text then regards case.
\<close>

lemma extract_currency_amounts_euros:
  "extract_currency_amounts ''5 euros'' = Inr [(5, ''USD'')]"
  by code_simp

lemma extract_currency_amounts_upper_code:
  "extract_currency_amounts ''10.99 GBP'' = Inr [(10.99, ''GBP'')]"
  by code_simp

text \<open>
  C4. The currency of a match should not depend on the letter case of the code: an amount
  followed by \<open>gbp\<close> is matched, since the patterns ignore case, and should be in GBP. The
  source looks for the codes \<open>USD\<close>, \<open>GBP\<close> and \<open>EUR\<close> in the matched text as they are
  written (only the words are looked for in the lowered text), finds none in
  \<open>10.99 gbp\<close> and falls back to USD.
\<close>

theorem extract_currency_amounts_lower_code:
  "extract_currency_amounts ''10.99 gbp'' = Inr [(10.99, ''USD'')]"
  by code_simp

subsection \<open>The cost normalizer\<close>

text \<open>
  C5. \<open>calculate_monthly_cost\<close> tests the lowered frequency for substrings, the cases read in
  the order in which they are listed (the first that applies decides): "annual" or "yearly"
  gives a twelfth of the amount, else "quarterly" a third, else "weekly" the amount times
  4.33, else "daily" the amount times 30.42, and every other frequency, the empty one
  included, the amount itself. So 120 billed "Annual" is 10 a month, 30 billed "Weekly" is
  129.9, and 9.99 billed "Monthly" is 9.99.
\<close>

theorem calculate_monthly_cost_cases:
  "calculate_monthly_cost a f =
     (if py_in ''annual'' (lower f) \<or> py_in ''yearly'' (lower f) then a / 12
      else if py_in ''quarterly'' (lower f) then a / 3
      else if py_in ''weekly'' (lower f) then a * 4.33
      else if py_in ''daily'' (lower f) then a * 30.42
      else a)
   \<and> calculate_monthly_cost 120 ''Annual'' = 10
   \<and> calculate_monthly_cost 30 ''Weekly'' = 129.9
   \<and> calculate_monthly_cost 9.99 ''Monthly'' = 9.99
   \<and> calculate_monthly_cost a [] = a"
proof -
  have general: "calculate_monthly_cost a f =
     (if py_in ''annual'' (lower f) \<or> py_in ''yearly'' (lower f) then a / 12
      else if py_in ''quarterly'' (lower f) then a / 3
      else if py_in ''weekly'' (lower f) then a * 4.33
      else if py_in ''daily'' (lower f) then a * 30.42
      else a)"
  proof (cases "f = []")
    case True
    then show ?thesis
      by (simp add: calculate_monthly_cost_def lower_def)
  next
    case False
    then show ?thesis
      by (simp add: calculate_monthly_cost_def Let_def)
  qed
  have annual: "calculate_monthly_cost 120 ''Annual'' = 10"
    by (simp add: calculate_monthly_cost_def Let_def lower_def lower_char_def
        ascii_upper_def ascii_lower_def startswith_def)
  have weekly: "calculate_monthly_cost 30 ''Weekly'' = 129.9"
    by (simp add: calculate_monthly_cost_def Let_def lower_def lower_char_def
        ascii_upper_def ascii_lower_def startswith_def)
  have monthly: "calculate_monthly_cost 9.99 ''Monthly'' = 9.99"
    by (simp add: calculate_monthly_cost_def Let_def lower_def lower_char_def
        ascii_upper_def ascii_lower_def startswith_def)
  have empty: "calculate_monthly_cost a [] = a"
    by (simp add: calculate_monthly_cost_def)
  from general annual weekly monthly empty show ?thesis
    by blast
qed

subsection \<open>Activity\<close>

lemma days_le_60: "(days t \<le> 60) = (t < 61 * 86400)"
  unfolding days_def by linarith

lemma days_le_14: "(days t \<le> 14) = (t < 15 * 86400)"
  unfolding days_def by linarith

text \<open>
  C7, as the claim states it, fails: a last email 60 days and one second before \<open>now\<close> is
  more than 60 days old, and the subscription still counts as active.
\<close>

theorem is_subscription_active_counterexample:
  "is_subscription_active 5184001 0 60 \<and> \<not> ((5184001::int) - 0 \<le> 60 * 86400)"
  by (simp add: is_subscription_active_def days_def)

text \<open>
  C7, amended. A subscription is active if and only if the number of whole days from its
  last email to \<open>now\<close>, rounded down, is at most 60, which is to say that the last email
  is less than 61 days old. A last email exactly 60 days old is active, one 10 days old is
  active, and one 90 days old is not.
\<close>

theorem is_subscription_active_whole_days:
  "is_subscription_active now d 60 = (days (now - d) \<le> 60)
   \<and> is_subscription_active now d 60 = (now - d < 61 * 86400)
   \<and> is_subscription_active (d + 60 * 86400) d 60
   \<and> is_subscription_active (d + 10 * 86400) d 60
   \<and> \<not> is_subscription_active (d + 90 * 86400) d 60"
  by (simp add: is_subscription_active_def days_le_60)

subsection \<open>The builder\<close>

lemma hasattr_extractors:
  "\<not> hasattr ''extract_currency_amounts''" "\<not> hasattr ''extract_billing_frequency''"
  by (simp_all add: hasattr_def dict_attributes_def)

lemma select_amount_Nil: "select_amount [] = (None, ''USD'')"
  by (simp add: select_amount_def amount_counts_def)

text \<open>No record of any service has an amount or a monthly cost.\<close>

lemma process_service_amount:
  assumes "process_service strptime now item = Inr rs" and "r \<in> set rs"
  shows "amount r = None \<and> monthly_cost r = None \<and> currency r = ''USD''"
  using assms
  by (auto simp: process_service_def hasattr_extractors select_amount_Nil Let_def
      split: sum.splits prod.splits)

text \<open>The activity flag of a record is the test above, on the date of the latest email.\<close>

lemma process_service_is_active:
  assumes "process_service strptime now item = Inr rs" and "r \<in> set rs"
  shows "is_active r = is_subscription_active now (last_email_date r) 60"
  using assms
  by (auto simp: process_service_def hasattr_extractors select_amount_Nil Let_def
      split: sum.splits prod.splits)

text \<open>
  C1. The record of a service should carry the most frequent amount that the extractor
  finds in the body of the latest email. The builder calls the extractor only if the email
  has an attribute \<open>extract_currency_amounts\<close>; the email is a dictionary and has none, so
  the list of amounts stays empty. The email whose body is \<open>Your bill: $12.50 due\<close>, in
  which the extractor finds 12.50 USD, gives a record with no amount.
\<close>

theorem builder_extracts_no_amount:
  "buildSubscriptionRecords (\<lambda>date_str fmt. None) 1700086400 [billed_email] =
     Inr [\<lparr>service_name = ''Netflix'', category = ''Streaming'', amount = None,
           currency = ''USD'', billing_frequency = ''Unknown'', monthly_cost = None,
           last_email_date = 1700000000, is_active = True, is_free_trial = False,
           trial_end_date = None, email_count = 1, latest_email_id = ''m1''\<rparr>]
   \<and> extract_currency_amounts (e_body_text billed_email) = Inr [(12.5, ''USD'')]"
  by code_simp

text \<open>
  C2. A record should never have an empty service name: where neither the domain of the
  sender, nor the subject, nor the display name of the sender gives a name, the name
  should be \<open>Unknown Service\<close>. The source returns \<open>Unknown Service\<close> for an empty From
  field only. A From field with an empty quoted display name and a webmail address gives
  the first word of the field without its quotes, the empty string.
\<close>

theorem builder_empty_service_name:
  "buildSubscriptionRecords (\<lambda>date_str fmt. None) 1700086400 [unnamed_email] =
     Inr [\<lparr>service_name = [], category = ''Other'', amount = None,
           currency = ''USD'', billing_frequency = ''Unknown'', monthly_cost = None,
           last_email_date = 1700000000, is_active = True, is_free_trial = False,
           trial_end_date = None, email_count = 1, latest_email_id = ''m2''\<rparr>]
   \<and> extract_service_name unnamed_email = []"
  by code_simp

text \<open>A sender address that ends at the at sign gives the empty name as well.\<close>

lemma extract_service_name_empty_domain:
  "extract_service_name (unnamed_email\<lparr>e_from := ''billing@''\<rparr>) = []"
  by code_simp

lemma extract_service_name_no_sender:
  "extract_service_name (unnamed_email\<lparr>e_from := []\<rparr>) = ''Unknown Service''"
  by code_simp

text \<open>
  C6. The empty list of messages gives the empty list of records and no exception, and
  the summary of the empty list of records has no subscription, no active one, the total
  monthly cost and the annual projection 0, and no category, no trial about to end and no
  unused subscription.
\<close>

theorem empty_input_empty_report:
  "buildSubscriptionRecords strptime now [] = Inr []
   \<and> analyze_subscription_emails strptime now [] = Inr []
   \<and> generate_summary_report now [] =
       \<lparr>total_subscriptions = 0, active_subscriptions = 0, total_monthly_cost = 0,
        annual_projection = 0, categories = [], trials_ending_soon = [],
        unused_subscriptions = []\<rparr>"
  by (simp add: buildSubscriptionRecords_def analyze_subscription_emails_def
      group_by_service_def generate_summary_report_def)

subsection \<open>The representative of a service\<close>

lemma find_filter_Cons: "filter P xs = r # ys \<Longrightarrow> find P xs = Some r"
  by (induction xs) (auto split: if_splits)

lemma filter_sort_newest_first:
  "filter (\<lambda>e. e_timestamp e = k) (sort_newest_first g) = filter (\<lambda>e. e_timestamp e = k) g"
proof -
  have "filter (\<lambda>e. e_timestamp e = k) (sort_newest_first g)
      = rev (filter (\<lambda>e. e_timestamp e = k) (sort_key e_timestamp (rev g)))"
    by (simp add: sort_newest_first_def rev_filter)
  also have "\<dots> = rev (filter (\<lambda>e. e_timestamp e = k) (rev g))"
    by (simp only: sort_key_stable)
  also have "\<dots> = filter (\<lambda>e. e_timestamp e = k) g"
    by (simp add: rev_filter)
  finally show ?thesis .
qed

lemma set_sort_newest_first: "set (sort_newest_first g) = set g"
  by (simp add: sort_newest_first_def)

lemma length_sort_newest_first: "length (sort_newest_first g) = length g"
  by (simp add: sort_newest_first_def)

lemma sort_newest_first_head_max:
  assumes "sort_newest_first g = r # rest" and "e \<in> set g"
  shows "e_timestamp e \<le> e_timestamp r"
proof -
  let ?xs = "sort_key e_timestamp (rev g)"
  have "rev ?xs = r # rest"
    using assms(1) by (simp add: sort_newest_first_def)
  then have xs: "?xs = rev rest @ [r]"
    by (metis rev.simps(2) rev_rev_ident)
  have "sorted (map e_timestamp ?xs)"
    by (rule sorted_sort_key)
  then have "sorted (map e_timestamp (rev rest) @ [e_timestamp r])"
    by (simp add: xs)
  then have le: "\<forall>t\<in>set (map e_timestamp (rev rest)). t \<le> e_timestamp r"
    by (simp add: sorted_append)
  have "e \<in> set ?xs"
    using assms(2) by simp
  then have "e = r \<or> e \<in> set rest"
    by (simp add: xs)
  then show ?thesis
    using le by auto
qed

text \<open>The groups that the builder forms are never empty.\<close>

lemma append_email_nonempty:
  "\<forall>(k, es)\<in>set acc. es \<noteq> [] \<Longrightarrow> \<forall>(k, es)\<in>set (append_email name email acc). es \<noteq> []"
  by (induction acc) (auto split: if_splits)

lemma foldl_append_email_nonempty:
  "\<forall>(k, es)\<in>set acc. es \<noteq> [] \<Longrightarrow>
   \<forall>(k, es)\<in>set (foldl (\<lambda>a e. append_email (service_key e) e a) acc emails). es \<noteq> []"
proof (induction emails arbitrary: acc)
  case Nil
  then show ?case by simp
next
  case (Cons e emails)
  have "\<forall>(k, es)\<in>set (append_email (service_key e) e acc). es \<noteq> []"
    using Cons.prems by (rule append_email_nonempty)
  then show ?case
    using Cons.IH by simp
qed

lemma group_by_service_nonempty: "(name, g) \<in> set (group_by_service emails) \<Longrightarrow> g \<noteq> []"
  using foldl_append_email_nonempty [of "[]" emails]
  by (auto simp: group_by_service_def)

text \<open>
  C9. The representative of a non-empty group is an email of the group whose timestamp is
  the largest in the group, and it is the first email of the group, in the order of the
  group, that has this timestamp. The record of the group carries the id and the date of
  this email.
\<close>

theorem representative_first_newest:
  assumes "g \<noteq> []"
  shows "\<exists>r. latest_email_of g = Inr r \<and> r \<in> set g
           \<and> (\<forall>e\<in>set g. e_timestamp e \<le> e_timestamp r)
           \<and> find (\<lambda>e. e_timestamp e = e_timestamp r) g = Some r
           \<and> (\<forall>rs. process_service strptime now (name, g) = Inr rs \<longrightarrow>
                 map latest_email_id rs = [e_id r] \<and> map last_email_date rs = [e_timestamp r])"
proof -
  from assms have "sort_newest_first g \<noteq> []"
    using length_sort_newest_first [of g] by (metis length_0_conv)
  then obtain r rest where sorted: "sort_newest_first g = r # rest"
    by (cases "sort_newest_first g") auto
  have latest: "latest_email_of g = Inr r"
    by (simp add: latest_email_of_def sorted)
  have member: "r \<in> set g"
    using set_sort_newest_first [of g] sorted by (metis list.set_intros(1))
  have newest: "\<forall>e\<in>set g. e_timestamp e \<le> e_timestamp r"
    using sort_newest_first_head_max [OF sorted] by blast
  have "filter (\<lambda>e. e_timestamp e = e_timestamp r) g
      = r # filter (\<lambda>e. e_timestamp e = e_timestamp r) rest"
    using filter_sort_newest_first [of "e_timestamp r" g] by (simp add: sorted)
  then have first: "find (\<lambda>e. e_timestamp e = e_timestamp r) g = Some r"
    by (rule find_filter_Cons)
  have built: "\<forall>rs. process_service strptime now (name, g) = Inr rs \<longrightarrow>
      map latest_email_id rs = [e_id r] \<and> map last_email_date rs = [e_timestamp r]"
    by (auto simp: process_service_def latest datetime_fromtimestamp_def Let_def
        split: sum.splits if_splits prod.splits)
  from latest member newest first built show ?thesis
    by blast
qed

text \<open>
  Three emails of one service, the last two at the same, later instant: the second is
  the representative.
\<close>

theorem representative_first_newest_witness:
  "[email_at ''a'' 100, email_at ''b'' 200, email_at ''c'' 200] \<noteq> []
   \<and> latest_email_of [email_at ''a'' 100, email_at ''b'' 200, email_at ''c'' 200]
       = Inr (email_at ''b'' 200)
   \<and> find (\<lambda>e. e_timestamp e = e_timestamp (email_at ''b'' 200))
       [email_at ''a'' 100, email_at ''b'' 200, email_at ''c'' 200] = Some (email_at ''b'' 200)"
proof -
  let ?g = "[email_at ''a'' 100, email_at ''b'' 200, email_at ''c'' 200]"
  have nonempty: "?g \<noteq> []"
    by simp
  from representative_first_newest [OF nonempty]
  obtain r where r: "latest_email_of ?g = Inr r"
    and first: "find (\<lambda>e. e_timestamp e = e_timestamp r) ?g = Some r"
    by blast
  have "latest_email_of ?g = Inr (email_at ''b'' 200)"
    by (simp add: latest_email_of_def sort_newest_first_def email_at_def)
  with r have "r = email_at ''b'' 200"
    by simp
  with r first nonempty show ?thesis
    by simp
qed

subsection \<open>The summary\<close>

text \<open>
  C8, as the claim states it, fails: a trial that ends 14 days and one second after
  \<open>now\<close> ends more than 14 days after \<open>now\<close>, and is listed as ending soon.
\<close>

theorem trials_ending_soon_counterexample:
  "sub_with True 0 (Some 1209601)
     \<in> set (trials_ending_soon (generate_summary_report 0 [sub_with True 0 (Some 1209601)]))
   \<and> is_free_trial (sub_with True 0 (Some 1209601))
   \<and> trial_end_date (sub_with True 0 (Some 1209601)) = Some 1209601
   \<and> \<not> ((1209601::int) - 0 \<le> 14 * 86400)"
  by (simp add: generate_summary_report_def ends_soon_def sub_with_def days_def)

text \<open>
  C8, amended. A record is listed among the trials ending soon if and only if it is a
  record of the list, it is a free trial, its trial has an end date, this date is after
  \<open>now\<close>, and the number of whole days from \<open>now\<close> to it, rounded down, is at most 14,
  which is to say that it is less than 15 days after \<open>now\<close>.
\<close>

theorem trials_ending_soon_whole_days:
  "(s \<in> set (trials_ending_soon (generate_summary_report now subs))) =
     (s \<in> set subs \<and> is_free_trial s \<and>
      (\<exists>d. trial_end_date s = Some d \<and> now < d \<and> days (d - now) \<le> 14))
   \<and> (s \<in> set (trials_ending_soon (generate_summary_report now subs))) =
     (s \<in> set subs \<and> is_free_trial s \<and>
      (\<exists>d. trial_end_date s = Some d \<and> now < d \<and> d - now < 15 * 86400))"
  by (auto simp: generate_summary_report_def ends_soon_def Let_def days_le_14
      split: option.splits)

text \<open>A trial that ends in 5 days is listed, one that ends in 20 days is not.\<close>

lemma trials_ending_soon_examples:
  "trials_ending_soon (generate_summary_report now
     [sub_with True now (Some (now + 5 * 86400)), sub_with True now (Some (now + 20 * 86400))])
   = [sub_with True now (Some (now + 5 * 86400))]"
  by (simp add: generate_summary_report_def ends_soon_def sub_with_def days_le_14)

text \<open>
  C10. If the activity flag of every record is the freshness test at the instant at which
  the summary is made (the last email is at most 60 days old), then the summary lists no
  unused subscription. The same holds if the flag is the test of the source, in whole
  days, at that instant.
\<close>

theorem no_unused_subscriptions:
  "((\<forall>s\<in>set subs. is_active s = (now - last_email_date s \<le> 60 * 86400)) \<longrightarrow>
      unused_subscriptions (generate_summary_report now subs) = [])
   \<and> ((\<forall>s\<in>set subs. is_active s = is_subscription_active now (last_email_date s) 60) \<longrightarrow>
      unused_subscriptions (generate_summary_report now subs) = [])"
proof -
  have unused: "unused_subscriptions (generate_summary_report now subs) =
      filter (\<lambda>s. \<not> days (now - last_email_date s) \<le> 60) (filter is_active subs)"
    by (simp add: generate_summary_report_def Let_def not_le)
  have exact: "unused_subscriptions (generate_summary_report now subs) = []"
    if flags: "\<forall>s\<in>set subs. is_active s = (now - last_email_date s \<le> 60 * 86400)"
  proof -
    have "days (now - last_email_date s) \<le> 60" if "s \<in> set subs" "is_active s" for s
    proof -
      from that flags have "now - last_email_date s \<le> 60 * 86400"
        by blast
      then show ?thesis
        by (simp add: days_le_60)
    qed
    then show ?thesis
      unfolding unused by (auto simp: filter_empty_conv)
  qed
  have coded: "unused_subscriptions (generate_summary_report now subs) = []"
    if "\<forall>s\<in>set subs. is_active s = is_subscription_active now (last_email_date s) 60"
    using that unfolding unused by (auto simp: filter_empty_conv is_subscription_active_def)
  from exact coded show ?thesis
    by blast
qed

text \<open>A fresh, active record and a stale, inactive one, seen 100 days after the epoch.\<close>

theorem no_unused_subscriptions_witness:
  "unused_subscriptions (generate_summary_report 8640000
       [sub_with True 7776000 None, sub_with False 864000 None]) = []
   \<and> is_active (sub_with True 7776000 None)
       = (8640000 - last_email_date (sub_with True 7776000 None) \<le> 60 * 86400)
   \<and> is_active (sub_with False 864000 None)
       = (8640000 - last_email_date (sub_with False 864000 None) \<le> 60 * 86400)"
proof -
  let ?subs = "[sub_with True 7776000 None, sub_with False 864000 None]"
  have flags: "\<forall>s\<in>set ?subs. is_active s = (8640000 - last_email_date s \<le> 60 * 86400)"
    by (simp add: sub_with_def)
  from no_unused_subscriptions [of ?subs 8640000] flags
  have "unused_subscriptions (generate_summary_report 8640000 ?subs) = []"
    by blast
  with flags show ?thesis
    by simp
qed

end
